theory Spec2Isabelle
  imports Main "HOL-Library.Word"
begin

section \<open>JavaScript values\<close>

text \<open>
  A JavaScript string is a sequence of 16-bit code units, and \<open>s.length\<close> counts
  code units. \<open>str\<close> turns a literal of the source into such a sequence.
\<close>

type_synonym jsstring = "16 word list"

definition str :: "string \<Rightarrow> jsstring" where
  "str s = map of_char s"

text \<open>Decimal rendering of a non-negative integer, as a template literal prints it.\<close>

function show_nat :: "nat \<Rightarrow> jsstring" where
  "show_nat n =
     (if n < 10 then [of_nat (48 + n)]
      else show_nat (n div 10) @ [of_nat (48 + n mod 10)])"
  by pat_completeness auto
termination
  by (relation "measure id") auto

declare show_nat.simps [simp del]

text \<open>
  A thrown value: every throw site of the two modules throws an \<open>Error\<close> object, of
  which the handlers read \<open>name\<close> and \<open>message\<close>.
\<close>

datatype js_error = JsError (err_name: jsstring) (err_message: jsstring)

definition Error :: "jsstring \<Rightarrow> js_error" where
  "Error m = JsError (str ''Error'') m"

definition TypeError :: "jsstring \<Rightarrow> js_error" where
  "TypeError m = JsError (str ''TypeError'') m"

text \<open>
  A decoded JSON document, as \<open>response.json()\<close> yields it. Numbers are kept abstract
  (type \<open>'n\<close>): they are IEEE doubles, and the code only ever coerces them. An object
  is the list of its own properties, one binding per key.
\<close>

datatype 'n json =
    JNull
  | JBool bool
  | JNum 'n
  | JStr jsstring
  | JArr "'n json list"
  | JObj "(jsstring \<times> 'n json) list"

text \<open>
  The built-ins of the JavaScript engine that the model does not unfold. Each may throw.
  \<^item> \<open>encodeURIComponent\<close> throws a URIError on a lone surrogate;
  \<^item> \<open>ToBoolean_number\<close> is the truth value of a number (false on zero);
  \<^item> \<open>ToString\<close> is the string conversion of a template literal, used on values
    that are not strings already;
  \<^item> \<open>greater_than_20\<close> is the comparison \<open>v > 20\<close> on a JSON value \<open>v\<close> (used on
    the own \<open>length\<close> property of an object).
\<close>

record 'n engine =
  encodeURIComponent :: "jsstring \<Rightarrow> js_error + jsstring"
  ToBoolean_number :: "'n \<Rightarrow> bool"
  ToString :: "'n json \<Rightarrow> js_error + jsstring"
  greater_than_20 :: "'n json \<Rightarrow> js_error + bool"

text \<open>Sequencing of steps that may throw: the first throw ends the computation.\<close>

definition bindE :: "'e + 'a \<Rightarrow> ('a \<Rightarrow> 'e + 'b) \<Rightarrow> 'e + 'b" where
  "bindE m f = (case m of Inl e \<Rightarrow> Inl e | Inr x \<Rightarrow> f x)"

text \<open>
  \<open>v.k\<close> for a key \<open>k\<close> that no built-in prototype defines (\<open>Abstract\<close>,
  \<open>RelatedTopics\<close>, \<open>Text\<close>, \<open>query\<close>, \<open>title\<close>, \<open>snippet\<close>): a TypeError on
  \<open>null\<close>, the own property of an object, \<open>undefined\<close> (\<open>None\<close>) otherwise.
\<close>

definition get :: "'n json \<Rightarrow> jsstring \<Rightarrow> js_error + 'n json option" where
  "get v k =
     (case v of
        JNull \<Rightarrow>
          Inl (TypeError (str ''Cannot read properties of null (reading '' @ [39] @ k @ [39] @ str '')''))
      | JObj kvs \<Rightarrow> Inr (map_of kvs k)
      | _ \<Rightarrow> Inr None)"

text \<open>Truthiness (\<open>ToBoolean\<close>) of a JSON value.\<close>

definition truthy :: "'n engine \<Rightarrow> 'n json \<Rightarrow> bool" where
  "truthy E v =
     (case v of
        JNull \<Rightarrow> False
      | JBool b \<Rightarrow> b
      | JNum x \<Rightarrow> ToBoolean_number E x
      | JStr s \<Rightarrow> s \<noteq> []
      | JArr _ \<Rightarrow> True
      | JObj _ \<Rightarrow> True)"

text \<open>
  \<open>xs.slice(0, end)\<close> for an integer \<open>end\<close>: a negative \<open>end\<close> counts from the end
  of the array.
\<close>

definition slice0 :: "'a list \<Rightarrow> int \<Rightarrow> 'a list" where
  "slice0 xs e = (if e < 0 then take (nat (int (length xs) + e)) xs else take (nat e) xs)"

text \<open>\<open>xs.join('\n\n')\<close> on an array of strings.\<close>

fun join_blank :: "jsstring list \<Rightarrow> jsstring" where
  "join_blank [] = []"
| "join_blank [x] = x"
| "join_blank (x # y # ys) = x @ [10, 10] @ join_blank (y # ys)"

section \<open>search.js\<close>

text \<open>The objects the search functions return. \<open>snippets = None\<close> is \<open>null\<close>;
  \<open>error = None\<close> and \<open>message = None\<close> say that the object has no such field.\<close>

record snippet_result =
  ok :: bool
  snippets :: "jsstring option"
  error :: "jsstring option"
  message :: "jsstring option"

text \<open>
  What \<open>fetch(url, options)\<close> does: it rejects (a network failure, or an error named
  \<open>AbortError\<close> when the 10 second timer aborts the request first), or it resolves to
  a response with a status, whose \<open>json()\<close> rejects (a body that is not JSON) or
  yields the decoded document. The network is a function from the URL to this outcome;
  each of the two functions sends its own fixed options.
\<close>

datatype 'n fetch_outcome =
    Rejects js_error
  | Responds nat "js_error + 'n json"

definition response_ok :: "nat \<Rightarrow> bool" where
  "response_ok status = (200 \<le> status \<and> status < 300)"

subsection \<open>webSearch\<close>

definition search_url :: "jsstring \<Rightarrow> jsstring" where
  "search_url q =
     str ''https://api.duckduckgo.com/?q='' @ q @ str ''&format=json&no_html=1&skip_disambig=1''"

text \<open>Lines 43 to 47: the \<open>forEach\<close> over the sliced related topics.\<close>

fun push_topics :: "'n engine \<Rightarrow> 'n json list \<Rightarrow> 'n json list \<Rightarrow> js_error + 'n json list" where
  "push_topics E [] cands = Inr cands"
| "push_topics E (topic # topics) cands =
     bindE (get topic (str ''Text'')) (\<lambda>t.
       push_topics E topics
         (case t of
            None \<Rightarrow> cands
          | Some v \<Rightarrow> if truthy E v then cands @ [v] else cands))"

text \<open>Lines 34 to 48: the candidate snippets (the array \<open>snippets\<close> of the source, here
  \<open>cands\<close>), the abstract first.\<close>

definition collect_snippets :: "'n engine \<Rightarrow> 'n json \<Rightarrow> int \<Rightarrow> js_error + 'n json list" where
  "collect_snippets E data maxResults =
     bindE (get data (str ''Abstract'')) (\<lambda>a.
     bindE (get data (str ''RelatedTopics'')) (\<lambda>r.
       let cands = (case a of None \<Rightarrow> [] | Some v \<Rightarrow> if truthy E v then [v] else [])
       in case r of
            Some (JArr topics) \<Rightarrow> push_topics E (slice0 topics maxResults) cands
          | _ \<Rightarrow> Inr cands))"

text \<open>
  Line 63, the filter's test \<open>s && s.length > 20\<close>. The \<open>length\<close> of a string is
  its number of code units, that of an array its number of elements, that of an object
  its own property of that name; numbers and booleans have none (\<open>undefined > 20\<close> is
  false).
\<close>

definition long_enough :: "'n engine \<Rightarrow> 'n json \<Rightarrow> js_error + bool" where
  "long_enough E s =
     (if truthy E s then
        (case s of
           JStr u \<Rightarrow> Inr (20 < length u)
         | JArr xs \<Rightarrow> Inr (20 < length xs)
         | JObj kvs \<Rightarrow>
             (case map_of kvs (str ''length'') of
                None \<Rightarrow> Inr False
              | Some v \<Rightarrow> greater_than_20 E v)
         | _ \<Rightarrow> Inr False)
      else Inr False)"

fun filter_snippets :: "'n engine \<Rightarrow> 'n json list \<Rightarrow> js_error + 'n json list" where
  "filter_snippets E [] = Inr []"
| "filter_snippets E (s # ss) =
     bindE (long_enough E s) (\<lambda>keep.
     bindE (filter_snippets E ss) (\<lambda>rest.
       Inr (if keep then s # rest else rest)))"

text \<open>Line 65, the entry \<open>[idx + 1] snippet\<close> of each kept snippet.\<close>

definition to_string :: "'n engine \<Rightarrow> 'n json \<Rightarrow> js_error + jsstring" where
  "to_string E v = (case v of JStr s \<Rightarrow> Inr s | _ \<Rightarrow> ToString E v)"

fun format_snippets :: "'n engine \<Rightarrow> nat \<Rightarrow> 'n json list \<Rightarrow> js_error + jsstring list" where
  "format_snippets E idx [] = Inr []"
| "format_snippets E idx (snippet # rest) =
     bindE (to_string E snippet) (\<lambda>s.
     bindE (format_snippets E (Suc idx) rest) (\<lambda>entries.
       Inr ((str ''['' @ show_nat (idx + 1) @ str ''] '' @ s) # entries)))"

text \<open>Lines 62 to 65: the array that line 66 joins.\<close>

definition formatted_entries :: "'n engine \<Rightarrow> 'n json list \<Rightarrow> int \<Rightarrow> js_error + jsstring list" where
  "formatted_entries E cands maxResults =
     bindE (filter_snippets E cands) (\<lambda>kept.
       format_snippets E 0 (slice0 kept maxResults))"

text \<open>The body of the \<open>try\<close> block, lines 14 to 71. Logging is left out.\<close>

definition webSearch_try ::
  "'n engine \<Rightarrow> (jsstring \<Rightarrow> 'n fetch_outcome) \<Rightarrow> jsstring \<Rightarrow> int \<Rightarrow> js_error + snippet_result" where
  "webSearch_try E fetch query maxResults =
     bindE (encodeURIComponent E query) (\<lambda>q.
       case fetch (search_url q) of
         Rejects e \<Rightarrow> Inl e
       | Responds status body \<Rightarrow>
           if \<not> response_ok status
           then Inl (Error (str ''Search API returned '' @ show_nat status))
           else
             bindE body (\<lambda>data.
             bindE (collect_snippets E data maxResults) (\<lambda>cands.
               if length cands = 0
               then Inr \<lparr>ok = True, snippets = None, error = None,
                          message = Some (str ''No search results found'')\<rparr>
               else
                 bindE (formatted_entries E cands maxResults) (\<lambda>entries.
                   Inr \<lparr>ok = True, snippets = Some (join_blank entries), error = None,
                        message = None\<rparr>))))"

text \<open>The \<open>catch\<close> block, lines 73 to 89.\<close>

definition webSearch_catch :: "js_error \<Rightarrow> snippet_result" where
  "webSearch_catch e =
     (if err_name e = str ''AbortError''
      then \<lparr>ok = False, snippets = None, error = Some (str ''Search timed out''), message = None\<rparr>
      else \<lparr>ok = False, snippets = None, error = Some (err_message e), message = None\<rparr>)"

text \<open>
  \<open>webSearch(query, maxResults = 3)\<close> for a string \<open>query\<close> and an integer
  \<open>maxResults\<close>; \<open>None\<close> is the omitted argument, which the default replaces. The
  result is \<open>Inr\<close> of the object the promise resolves to, or \<open>Inl\<close> of the error it
  rejects with.
\<close>

definition given_or_3 :: "int option \<Rightarrow> int" where
  "given_or_3 maxResults = (case maxResults of None \<Rightarrow> 3 | Some n \<Rightarrow> n)"

definition webSearch ::
  "'n engine \<Rightarrow> (jsstring \<Rightarrow> 'n fetch_outcome) \<Rightarrow> jsstring \<Rightarrow> int option \<Rightarrow> js_error + snippet_result" where
  "webSearch E fetch query maxResults =
     (case webSearch_try E fetch query (given_or_3 maxResults) of
        Inl e \<Rightarrow> Inr (webSearch_catch e)
      | Inr r \<Rightarrow> Inr r)"

subsection \<open>checkSearchHealth\<close>

text \<open>The object \<open>checkSearchHealth\<close> returns; \<open>h_error = None\<close> says that it has no
  \<open>error\<close> field.\<close>

record health =
  h_ok :: bool
  h_error :: "jsstring option"

definition checkSearchHealth ::
  "'n engine \<Rightarrow> (jsstring \<Rightarrow> 'n fetch_outcome) \<Rightarrow> js_error + health" where
  "checkSearchHealth E fetch =
     (case webSearch E fetch (str ''test'') (Some 1) of
        Inr result \<Rightarrow> Inr \<lparr>h_ok = ok result, h_error = None\<rparr>
      | Inl e \<Rightarrow> Inr \<lparr>h_ok = False, h_error = Some (err_message e)\<rparr>)"

subsection \<open>searchWikipedia\<close>

definition wiki_url :: "jsstring \<Rightarrow> jsstring" where
  "wiki_url q =
     str ''https://en.wikipedia.org/w/api.php?action=query&list=search&srsearch='' @ q
       @ str ''&format=json&srlimit=3''"

text \<open>
  \<open>s.replace(/<[^>]*>/g, '')\<close>: scanning from the left, a \<open><\<close> (code unit 60) that
  has a \<open>>\<close> (62) after it is dropped together with everything up to the first such
  \<open>>\<close>; any other code unit is kept.
\<close>

function strip_tags :: "jsstring \<Rightarrow> jsstring" where
  "strip_tags [] = []"
| "strip_tags (c # cs) =
     (if c = 60 \<and> 62 \<in> set cs
      then strip_tags (tl (dropWhile (\<lambda>d. d \<noteq> 62) cs))
      else c # strip_tags cs)"
  by pat_completeness auto
termination
proof (relation "measure length")
  show "wf (measure length)" by simp
next
  fix c :: "16 word" and cs :: jsstring
  have "length (tl (dropWhile (\<lambda>d. d \<noteq> 62) cs)) \<le> length cs"
    using length_dropWhile_le [of "\<lambda>d. d \<noteq> 62" cs] by simp
  then show "(tl (dropWhile (\<lambda>d. d \<noteq> 62) cs), c # cs) \<in> measure length"
    by simp
next
  fix c :: "16 word" and cs :: jsstring
  show "(cs, c # cs) \<in> measure length" by simp
qed

text \<open>
  The value of \<open>data.query?.search\<close>. On a string \<open>query\<close> it is the method
  \<open>String.prototype.search\<close>, a function (truthy, of \<open>length\<close> 1, without a
  \<open>map\<close>); numbers, booleans and arrays have no such property.
\<close>

datatype 'n property = Undefined | Value "'n json" | String_search_method

definition query_search :: "'n json \<Rightarrow> js_error + 'n property" where
  "query_search data =
     bindE (get data (str ''query'')) (\<lambda>q.
       case q of
         None \<Rightarrow> Inr Undefined
       | Some JNull \<Rightarrow> Inr Undefined
       | Some (JStr _) \<Rightarrow> Inr String_search_method
       | Some (JObj kvs) \<Rightarrow>
           Inr (case map_of kvs (str ''search'') of None \<Rightarrow> Undefined | Some v \<Rightarrow> Value v)
       | Some _ \<Rightarrow> Inr Undefined)"

text \<open>
  Line 125, \<open>!s || s.length === 0\<close>. A decoded JSON number is never NaN, so it is
  \<open>=== 0\<close> exactly when it is falsy.
\<close>

definition no_search_results :: "'n engine \<Rightarrow> 'n property \<Rightarrow> bool" where
  "no_search_results E s =
     (case s of
        Undefined \<Rightarrow> True
      | String_search_method \<Rightarrow> False
      | Value v \<Rightarrow>
          (if truthy E v then
             (case v of
                JArr results \<Rightarrow> length results = 0
              | JObj kvs \<Rightarrow>
                  (case map_of kvs (str ''length'') of
                     Some (JNum x) \<Rightarrow> \<not> ToBoolean_number E x
                   | _ \<Rightarrow> False)
              | _ \<Rightarrow> False)
           else True))"

text \<open>Line 130, the entry \<open>[idx + 1] title: snippet\<close> of one search result.\<close>

definition wiki_entry :: "'n engine \<Rightarrow> nat \<Rightarrow> 'n json \<Rightarrow> js_error + jsstring" where
  "wiki_entry E idx result =
     bindE (get result (str ''title'')) (\<lambda>t.
     bindE (case t of None \<Rightarrow> Inr (str ''undefined'') | Some v \<Rightarrow> to_string E v) (\<lambda>title.
     bindE (get result (str ''snippet'')) (\<lambda>s.
       case s of
         Some (JStr u) \<Rightarrow>
           Inr (str ''['' @ show_nat (idx + 1) @ str ''] '' @ title @ str '': '' @ strip_tags u)
       | None \<Rightarrow>
           Inl (TypeError (str ''Cannot read properties of undefined (reading '' @ [39]
                  @ str ''replace'' @ [39] @ str '')''))
       | Some JNull \<Rightarrow>
           Inl (TypeError (str ''Cannot read properties of null (reading '' @ [39]
                  @ str ''replace'' @ [39] @ str '')''))
       | Some _ \<Rightarrow> Inl (TypeError (str ''result.snippet.replace is not a function'')))))"

fun wiki_entries :: "'n engine \<Rightarrow> nat \<Rightarrow> 'n json list \<Rightarrow> js_error + jsstring list" where
  "wiki_entries E idx [] = Inr []"
| "wiki_entries E idx (result # results) =
     bindE (wiki_entry E idx result) (\<lambda>entry.
     bindE (wiki_entries E (Suc idx) results) (\<lambda>entries.
       Inr (entry # entries)))"

text \<open>The body of the \<open>try\<close> block, lines 111 to 133.\<close>

definition searchWikipedia_try ::
  "'n engine \<Rightarrow> (jsstring \<Rightarrow> 'n fetch_outcome) \<Rightarrow> jsstring \<Rightarrow> js_error + snippet_result" where
  "searchWikipedia_try E fetch query =
     bindE (encodeURIComponent E query) (\<lambda>q.
       case fetch (wiki_url q) of
         Rejects e \<Rightarrow> Inl e
       | Responds status body \<Rightarrow>
           if \<not> response_ok status
           then Inl (Error (str ''Wikipedia API failed''))
           else
             bindE body (\<lambda>data.
             bindE (query_search data) (\<lambda>s.
               if no_search_results E s
               then Inr \<lparr>ok = True, snippets = None, error = None, message = None\<rparr>
               else
                 (case s of
                    Value (JArr results) \<Rightarrow>
                      bindE (wiki_entries E 0 results) (\<lambda>entries.
                        Inr \<lparr>ok = True, snippets = Some (join_blank entries), error = None,
                             message = None\<rparr>)
                  | _ \<Rightarrow> Inl (TypeError (str ''data.query.search.map is not a function''))))))"

definition searchWikipedia ::
  "'n engine \<Rightarrow> (jsstring \<Rightarrow> 'n fetch_outcome) \<Rightarrow> jsstring \<Rightarrow> js_error + snippet_result" where
  "searchWikipedia E fetch query =
     (case searchWikipedia_try E fetch query of
        Inl e \<Rightarrow>
          Inr \<lparr>ok = False, snippets = None, error = Some (err_message e), message = None\<rparr>
      | Inr r \<Rightarrow> Inr r)"

section \<open>server.js: the middleware requireAuth\<close>

text \<open>
  What \<open>supabase.auth.getUser(token)\<close> settles with: it rejects, or it resolves to
  \<open>{ data: { user }, error }\<close>, where \<open>user\<close> is \<open>null\<close> or a user whose \<open>email\<close>
  may be undefined, and \<open>error\<close> is \<open>null\<close> or an error object.
\<close>

datatype user = User (email: "jsstring option")

datatype getUser_result = GetUserResult (data_user: "user option") (auth_error: "js_error option")

text \<open>
  The lookup races a 5000 ms timer. Which of the two settles first is the environment's
  choice: the lookup settles before the timer fires, or after it (with whatever it
  would have settled with), or never.
\<close>

datatype lookup =
    Settles_in_time "js_error + getUser_result"
  | Settles_late "js_error + getUser_result"
  | Never_settles

definition race_5s :: "lookup \<Rightarrow> js_error + getUser_result" where
  "race_5s l =
     (case l of
        Settles_in_time r \<Rightarrow> r
      | Settles_late _ \<Rightarrow> Inl (Error (str ''Supabase Timeout''))
      | Never_settles \<Rightarrow> Inl (Error (str ''Supabase Timeout'')))"

text \<open>\<open>s.split(sep)\<close> for a separator of one code unit.\<close>

fun split_on :: "'a \<Rightarrow> 'a list \<Rightarrow> 'a list list" where
  "split_on sep [] = [[]]"
| "split_on sep (c # cs) =
     (if c = sep then [] # split_on sep cs
      else (case split_on sep cs of
              [] \<Rightarrow> [[c]]
            | p # ps \<Rightarrow> (c # p) # ps))"

text \<open>Line 76: \<open>req.headers.authorization?.split(' ')[1]\<close>; \<open>None\<close> is \<open>undefined\<close>.\<close>

definition header_token :: "jsstring option \<Rightarrow> jsstring option" where
  "header_token authorization =
     (case authorization of
        None \<Rightarrow> None
      | Some h \<Rightarrow> (case split_on 32 h of _ # t # _ \<Rightarrow> Some t | _ \<Rightarrow> None))"

text \<open>What the middleware does with the request: it hands over to the next handler
  with \<open>req.userEmail\<close> set (\<open>next()\<close>, which is taken to return normally), or it
  answers with a status and a JSON body. The run also records the tokens submitted to
  \<open>supabase.auth.getUser\<close>.\<close>

datatype body_value = BString jsstring | BBool bool

datatype reply =
    Next "jsstring option"
  | Responded nat "(jsstring \<times> body_value) list"

record auth_run =
  reply :: reply
  getUser_calls :: "jsstring list"

text \<open>Lines 85 to 89, on what the race settled with.\<close>

definition resolved_email :: "js_error + getUser_result \<Rightarrow> js_error + jsstring option" where
  "resolved_email settled =
     bindE settled (\<lambda>r.
       case auth_error r of
         Some _ \<Rightarrow> Inl (Error (str ''Invalid token''))
       | None \<Rightarrow>
           (case data_user r of
              None \<Rightarrow> Inl (Error (str ''Invalid token''))
            | Some u \<Rightarrow> Inr (email u)))"

definition BYPASS_AUTH :: "jsstring option \<Rightarrow> bool" where
  "BYPASS_AUTH env_BYPASS_AUTH = (env_BYPASS_AUTH = Some (str ''true''))"

definition requireAuth :: "bool \<Rightarrow> (jsstring \<Rightarrow> lookup) \<Rightarrow> jsstring option \<Rightarrow> auth_run" where
  "requireAuth bypass getUser authorization =
     (if bypass
      then \<lparr>reply = Next (Some (str ''test@dev.com'')), getUser_calls = []\<rparr>
      else
        (case header_token authorization of
           None \<Rightarrow>
             \<lparr>reply = Responded 401 [(str ''error'', BString (str ''No token provided''))],
              getUser_calls = []\<rparr>
         | Some [] \<Rightarrow>
             \<lparr>reply = Responded 401 [(str ''error'', BString (str ''No token provided''))],
              getUser_calls = []\<rparr>
         | Some token \<Rightarrow>
             \<lparr>reply =
                (case resolved_email (race_5s (getUser token)) of
                   Inl err \<Rightarrow>
                     Responded 401
                       [(str ''success'', BBool False),
                        (str ''error'', BString (str ''Authentication failed.''))]
                 | Inr e \<Rightarrow> Next e),
              getUser_calls = [token]\<rparr>))"

section \<open>Example environments\<close>

text \<open>
  A concrete engine for the examples. Their queries consist of unreserved characters,
  which \<open>encodeURIComponent\<close> leaves as they are, and their candidates are strings.
\<close>

definition example_engine :: "int engine" where
  "example_engine =
     \<lparr>encodeURIComponent = Inr,
      ToBoolean_number = (\<lambda>n. n \<noteq> 0),
      ToString = (\<lambda>v. Inr (str ''[object Object]'')),
      greater_than_20 = (\<lambda>v. case v of JNum x \<Rightarrow> Inr (20 < x) | _ \<Rightarrow> Inr False)\<rparr>"

text \<open>The provider answers \<open>{"Abstract": "Too short", "RelatedTopics": []}\<close>.\<close>

definition short_abstract_fetch :: "jsstring \<Rightarrow> int fetch_outcome" where
  "short_abstract_fetch url =
     Responds 200
       (Inr (JObj [(str ''Abstract'', JStr (str ''Too short'')),
                   (str ''RelatedTopics'', JArr [])]))"

text \<open>
  The scenario of the specification: an abstract of 200 characters and three related
  topics of 50 characters each.
\<close>

definition photosynthesis_fetch :: "jsstring \<Rightarrow> int fetch_outcome" where
  "photosynthesis_fetch url =
     Responds 200
       (Inr (JObj [(str ''Abstract'', JStr (replicate 200 97)),
                   (str ''RelatedTopics'',
                    JArr [JObj [(str ''Text'', JStr (replicate 50 98))],
                          JObj [(str ''Text'', JStr (replicate 50 99))],
                          JObj [(str ''Text'', JStr (replicate 50 100))]])]))"

text \<open>An answer with a short related topic between two long texts.\<close>

definition mixed_fetch :: "jsstring \<Rightarrow> int fetch_outcome" where
  "mixed_fetch url =
     Responds 200
       (Inr (JObj [(str ''Abstract'', JStr (str ''Photosynthesis turns light into sugar'')),
                   (str ''RelatedTopics'',
                    JArr [JObj [(str ''Text'', JStr (str ''Too short''))],
                          JObj [(str ''Text'',
                                 JStr (str ''Chlorophyll absorbs blue and red light''))]])]))"

text \<open>The 10 second timer fires first: \<open>fetch\<close> rejects with an AbortError.\<close>

definition timeout_fetch :: "jsstring \<Rightarrow> int fetch_outcome" where
  "timeout_fetch url =
     Rejects (JsError (str ''AbortError'') (str ''The operation was aborted.''))"

text \<open>The encyclopedia answers with one result: title \<open>Go\<close>, snippet
  \<open>a <b>game</b>\<close>.\<close>

definition short_wiki_fetch :: "jsstring \<Rightarrow> int fetch_outcome" where
  "short_wiki_fetch url =
     Responds 200
       (Inr (JObj [(str ''query'',
                    JObj [(str ''search'',
                           JArr [JObj [(str ''title'', JStr (str ''Go'')),
                                       (str ''snippet'', JStr (str ''a <b>game</b>''))]])])]))"

text \<open>
  Three identity providers: one that accepts every token at once, one that rejects
  every token at once, and one that would accept but answers after the deadline.
\<close>

definition accepting_getUser :: "jsstring \<Rightarrow> lookup" where
  "accepting_getUser token =
     Settles_in_time (Inr (GetUserResult (Some (User (Some (str ''ann@example.com'')))) None))"

definition rejecting_getUser :: "jsstring \<Rightarrow> lookup" where
  "rejecting_getUser token =
     Settles_in_time
       (Inr (GetUserResult None (Some (JsError (str ''AuthApiError'') (str ''invalid JWT'')))))"

definition late_getUser :: "jsstring \<Rightarrow> lookup" where
  "late_getUser token =
     Settles_late (Inr (GetUserResult (Some (User (Some (str ''ann@example.com'')))) None))"

section \<open>Auxiliary facts\<close>

lemma bindE_Inl [simp]: "bindE (Inl e) f = Inl e"
  by (simp add: bindE_def)

lemma bindE_Inr [simp]: "bindE (Inr x) f = f x"
  by (simp add: bindE_def)

lemma bindE_eq_Inr: "bindE m f = Inr y \<longleftrightarrow> (\<exists>x. m = Inr x \<and> f x = Inr y)"
  by (cases m) simp_all

lemma show_nat_digit: "n < 10 \<Longrightarrow> show_nat n = [of_nat (48 + n)]"
  by (simp add: show_nat.simps)

lemma slice0_nat: "slice0 xs (int n) = take n xs"
  by (simp add: slice0_def)

lemma long_enough_JStr: "long_enough E (JStr u) = Inr (20 < length u)"
  by (cases u) (simp_all add: long_enough_def truthy_def)

lemma filter_snippets_Inr:
  "filter_snippets E cs = Inr ks \<Longrightarrow> ks = filter (\<lambda>c. long_enough E c = Inr True) cs"
proof (induction cs arbitrary: ks)
  case Nil
  then show ?case by simp
next
  case (Cons c cs)
  from Cons.prems obtain b rest where
    b: "long_enough E c = Inr b" and rest: "filter_snippets E cs = Inr rest"
    and ks: "ks = (if b then c # rest else rest)"
    by (auto simp: bindE_eq_Inr)
  from Cons.IH [OF rest] b ks show ?case by auto
qed

lemma format_snippets_length:
  "format_snippets E idx xs = Inr es \<Longrightarrow> length es = length xs"
proof (induction xs arbitrary: idx es)
  case Nil
  then show ?case by simp
next
  case (Cons x xs)
  then show ?case by (auto simp: bindE_eq_Inr)
qed

text \<open>What a run of \<open>webSearch\<close> that returns text went through.\<close>

lemma webSearch_snippetsD:
  assumes "webSearch E fetch q m = Inr r" and "snippets r = Some t"
    and "n = given_or_3 m"
  shows "\<exists>enc status data cands entries.
           encodeURIComponent E q = Inr enc \<and>
           fetch (search_url enc) = Responds status (Inr data) \<and>
           response_ok status \<and>
           collect_snippets E data n = Inr cands \<and>
           cands \<noteq> [] \<and>
           formatted_entries E cands n = Inr entries \<and>
           r = \<lparr>ok = True, snippets = Some (join_blank entries), error = None, message = None\<rparr>"
proof -
  have nocatch: "snippets (webSearch_catch e) = None" for e
    by (simp add: webSearch_catch_def)
  from assms(1,2) nocatch have tr: "webSearch_try E fetch q n = Inr r"
    unfolding webSearch_def assms(3) by (auto split: sum.splits)
  from tr obtain enc where enc: "encodeURIComponent E q = Inr enc"
    unfolding webSearch_try_def by (auto simp: bindE_eq_Inr)
  with tr obtain status body where f: "fetch (search_url enc) = Responds status body"
    unfolding webSearch_try_def by (cases "fetch (search_url enc)") auto
  with tr enc have okst: "response_ok status"
    unfolding webSearch_try_def by (auto split: if_splits)
  with tr enc f obtain data where body: "body = Inr data"
    unfolding webSearch_try_def by (cases body) auto
  with tr enc f okst obtain cands where c: "collect_snippets E data n = Inr cands"
    unfolding webSearch_try_def by (auto simp: bindE_eq_Inr)
  with tr enc f okst body assms(2) have ne: "cands \<noteq> []"
    unfolding webSearch_try_def by (auto split: if_splits)
  with tr enc f okst body c obtain entries where
    "formatted_entries E cands n = Inr entries"
    "r = \<lparr>ok = True, snippets = Some (join_blank entries), error = None, message = None\<rparr>"
    unfolding webSearch_try_def by (auto simp: bindE_eq_Inr)
  with enc f okst body c ne show ?thesis by blast
qed

section \<open>The search client\<close>

text \<open>
  C1. When candidates were collected but the length filter removes every one of them,
  \<open>webSearch\<close> should answer \<open>{ ok: true, snippets: null }\<close>. The check for an empty
  array (line 53) stands before the filter (line 63), so it does not see this case: on
  the answer \<open>{"Abstract": "Too short", "RelatedTopics": []}\<close> the one candidate is
  filtered out, the join of no entries is the empty string, and the result is
  \<open>{ ok: true, snippets: "" }\<close>.
\<close>

theorem webSearch_all_filtered_gives_empty_string:
  "webSearch example_engine short_abstract_fetch (str ''x'') (Some 3) =
     Inr \<lparr>ok = True, snippets = Some (str ''''), error = None, message = None\<rparr>"
  by (simp add: webSearch_def webSearch_try_def given_or_3_def example_engine_def
      short_abstract_fetch_def response_ok_def collect_snippets_def get_def truthy_def slice0_def
      formatted_entries_def long_enough_def str_def)

lemma set_slice0_subset: "set (slice0 xs e) \<subseteq> set xs"
  by (auto simp: slice0_def dest: in_set_takeD)

lemma slice0_all: "int (length xs) \<le> e \<Longrightarrow> slice0 xs e = xs"
  by (simp add: slice0_def)

text \<open>
  C6. With \<open>maxResults = n\<close>, the text \<open>webSearch\<close> returns is the join of at most
  \<open>n\<close> formatted entries, whatever the provider answered and however many candidates
  pass the length filter. (\<open>n\<close> is a count: on a negative \<open>maxResults\<close> the
  \<open>slice\<close> of line 64 counts from the end of the array, and no number of entries is
  at most a negative number.)
\<close>

theorem webSearch_result_cap:
  assumes "webSearch E fetch query (Some (int n)) = Inr r" and "snippets r = Some t"
  shows "\<exists>q status data cands entries.
           encodeURIComponent E query = Inr q \<and>
           fetch (search_url q) = Responds status (Inr data) \<and>
           collect_snippets E data (int n) = Inr cands \<and>
           formatted_entries E cands (int n) = Inr entries \<and>
           t = join_blank entries \<and>
           length entries \<le> n"
proof -
  have n: "int n = given_or_3 (Some (int n))"
    by (simp add: given_or_3_def)
  from webSearch_snippetsD [OF assms n] obtain q status data cands entries where
    run: "encodeURIComponent E query = Inr q"
      "fetch (search_url q) = Responds status (Inr data)"
      "collect_snippets E data (int n) = Inr cands"
      "formatted_entries E cands (int n) = Inr entries"
    and r: "r = \<lparr>ok = True, snippets = Some (join_blank entries), error = None, message = None\<rparr>"
    by auto
  from run(4) obtain kept where
    "format_snippets E 0 (slice0 kept (int n)) = Inr entries"
    by (auto simp: formatted_entries_def bindE_eq_Inr)
  then have "length entries = length (take n kept)"
    by (simp add: format_snippets_length slice0_nat)
  then have "length entries \<le> n" by simp
  moreover from r assms(2) have "t = join_blank entries" by simp
  ultimately show ?thesis using run by blast
qed

text \<open>
  The scenario of the specification: four candidates longer than 20 characters, of
  which \<open>maxResults = 2\<close> keeps the abstract and the first related topic.
\<close>

theorem webSearch_result_cap_witness:
  "webSearch example_engine photosynthesis_fetch (str ''photosynthesis'') (Some (int 2)) =
     Inr \<lparr>ok = True,
          snippets = Some (str ''[1] '' @ replicate 200 97 @ str ''\<newline>\<newline>[2] '' @ replicate 50 98),
          error = None, message = None\<rparr> \<and>
   (\<exists>q status data cands entries.
      encodeURIComponent example_engine (str ''photosynthesis'') = Inr q \<and>
      photosynthesis_fetch (search_url q) = Responds status (Inr data) \<and>
      collect_snippets example_engine data (int 2) = Inr cands \<and>
      formatted_entries example_engine cands (int 2) = Inr entries \<and>
      str ''[1] '' @ replicate 200 97 @ str ''\<newline>\<newline>[2] '' @ replicate 50 98 = join_blank entries \<and>
      length entries \<le> 2)"
proof -
  have run:
    "webSearch example_engine photosynthesis_fetch (str ''photosynthesis'') (Some (int 2)) =
       Inr \<lparr>ok = True,
            snippets = Some (str ''[1] '' @ replicate 200 97 @ str ''\<newline>\<newline>[2] '' @ replicate 50 98),
            error = None, message = None\<rparr>"
    by (simp add: webSearch_def webSearch_try_def given_or_3_def example_engine_def
        photosynthesis_fetch_def response_ok_def collect_snippets_def get_def truthy_def
        slice0_def formatted_entries_def long_enough_def str_def to_string_def show_nat_digit)
  from webSearch_result_cap [OF run] run show ?thesis by simp
qed

text \<open>
  C7. The entries \<open>webSearch\<close> returns are formatted from the candidates that pass the
  test of line 63, in their order, cut by \<open>slice(0, maxResults)\<close> and by nothing else.
  A text candidate passes exactly when it is longer than 20 code units: one of length
  20 or less is never among the kept candidates, and when the passing candidates number
  at most \<open>maxResults\<close> every text candidate longer than 20 is kept.
\<close>

theorem webSearch_length_filter:
  assumes "webSearch E fetch query maxResults = Inr r" and "snippets r = Some t"
  shows "\<exists>q status data cands kept entries.
           encodeURIComponent E query = Inr q \<and>
           fetch (search_url q) = Responds status (Inr data) \<and>
           collect_snippets E data (given_or_3 maxResults) = Inr cands \<and>
           kept = slice0 (filter (\<lambda>c. long_enough E c = Inr True) cands) (given_or_3 maxResults) \<and>
           format_snippets E 0 kept = Inr entries \<and>
           t = join_blank entries \<and>
           (\<forall>u. long_enough E (JStr u) = Inr (20 < length u)) \<and>
           (\<forall>u. JStr u \<in> set cands \<and> length u \<le> 20 \<longrightarrow> JStr u \<notin> set kept) \<and>
           (int (length (filter (\<lambda>c. long_enough E c = Inr True) cands)) \<le> given_or_3 maxResults \<longrightarrow>
              (\<forall>u. JStr u \<in> set cands \<and> 20 < length u \<longrightarrow> JStr u \<in> set kept))"
proof -
  let ?P = "\<lambda>c. long_enough E c = Inr True"
  let ?n = "given_or_3 maxResults"
  from webSearch_snippetsD [OF assms refl] obtain q status data cands entries where
    run: "encodeURIComponent E query = Inr q"
      "fetch (search_url q) = Responds status (Inr data)"
      "collect_snippets E data ?n = Inr cands"
    and fe: "formatted_entries E cands ?n = Inr entries"
    and r: "r = \<lparr>ok = True, snippets = Some (join_blank entries), error = None, message = None\<rparr>"
    by auto
  from fe obtain ks where ks: "filter_snippets E cands = Inr ks"
    and fmt: "format_snippets E 0 (slice0 ks ?n) = Inr entries"
    by (auto simp: formatted_entries_def bindE_eq_Inr)
  from filter_snippets_Inr [OF ks] have ks_eq: "ks = filter ?P cands" .
  define kept where "kept = slice0 (filter ?P cands) ?n"
  have fmt': "format_snippets E 0 kept = Inr entries"
    using fmt by (simp add: kept_def ks_eq)
  have t: "t = join_blank entries"
    using r assms(2) by simp
  have short: "JStr u \<notin> set kept" if "length u \<le> 20" for u
  proof
    assume "JStr u \<in> set kept"
    then have "JStr u \<in> set (filter ?P cands)"
      using set_slice0_subset [of "filter ?P cands" ?n] by (auto simp: kept_def)
    then have "long_enough E (JStr u) = Inr True" by simp
    with that show False by (simp add: long_enough_JStr)
  qed
  have long: "JStr u \<in> set kept"
    if "int (length (filter ?P cands)) \<le> ?n" "JStr u \<in> set cands" "20 < length u" for u
    using that by (simp add: kept_def slice0_all long_enough_JStr)
  from run fmt' t short long show ?thesis
    unfolding kept_def by (intro exI conjI) (auto simp: long_enough_JStr)
qed

text \<open>
  With the default \<open>maxResults\<close>: of the three candidates the short related topic is
  dropped and the two long texts are returned.
\<close>

theorem webSearch_length_filter_witness:
  "webSearch example_engine mixed_fetch (str ''photosynthesis'') None =
     Inr \<lparr>ok = True,
          snippets = Some (str ''[1] Photosynthesis turns light into sugar\<newline>\<newline>[2] Chlorophyll absorbs blue and red light''),
          error = None, message = None\<rparr> \<and>
   (\<exists>q status data cands kept entries.
      encodeURIComponent example_engine (str ''photosynthesis'') = Inr q \<and>
      mixed_fetch (search_url q) = Responds status (Inr data) \<and>
      collect_snippets example_engine data 3 = Inr cands \<and>
      kept = slice0 (filter (\<lambda>c. long_enough example_engine c = Inr True) cands) 3 \<and>
      format_snippets example_engine 0 kept = Inr entries \<and>
      str ''[1] Photosynthesis turns light into sugar\<newline>\<newline>[2] Chlorophyll absorbs blue and red light'' = join_blank entries \<and>
      (\<forall>u. long_enough example_engine (JStr u) = Inr (20 < length u)) \<and>
      (\<forall>u. JStr u \<in> set cands \<and> length u \<le> 20 \<longrightarrow> JStr u \<notin> set kept) \<and>
      (int (length (filter (\<lambda>c. long_enough example_engine c = Inr True) cands)) \<le> 3 \<longrightarrow>
         (\<forall>u. JStr u \<in> set cands \<and> 20 < length u \<longrightarrow> JStr u \<in> set kept)))"
proof -
  have run:
    "webSearch example_engine mixed_fetch (str ''photosynthesis'') None =
       Inr \<lparr>ok = True,
            snippets = Some (str ''[1] Photosynthesis turns light into sugar\<newline>\<newline>[2] Chlorophyll absorbs blue and red light''),
            error = None, message = None\<rparr>"
    by (simp add: webSearch_def webSearch_try_def given_or_3_def example_engine_def
        mixed_fetch_def response_ok_def collect_snippets_def get_def truthy_def slice0_def
        formatted_entries_def long_enough_def str_def to_string_def show_nat_digit)
  from webSearch_length_filter [OF run] run show ?thesis
    by (simp add: given_or_3_def)
qed

lemma webSearch_try_ok:
  assumes "webSearch_try E fetch query n = Inr r"
  shows "ok r"
proof -
  from assms obtain q where q: "encodeURIComponent E query = Inr q"
    unfolding webSearch_try_def by (auto simp: bindE_eq_Inr)
  with assms obtain status body where f: "fetch (search_url q) = Responds status body"
    unfolding webSearch_try_def by (cases "fetch (search_url q)") auto
  with assms q have st: "response_ok status"
    unfolding webSearch_try_def by (auto split: if_splits)
  with assms q f obtain data where body: "body = Inr data"
    unfolding webSearch_try_def by (cases body) auto
  with assms q f st obtain cands where c: "collect_snippets E data n = Inr cands"
    unfolding webSearch_try_def by (auto simp: bindE_eq_Inr)
  show ?thesis
  proof (cases "cands = []")
    case True
    with assms q f st body c show ?thesis
      unfolding webSearch_try_def by auto
  next
    case False
    with assms q f st body c show ?thesis
      unfolding webSearch_try_def by (auto simp: bindE_eq_Inr)
  qed
qed

lemma searchWikipedia_try_cases:
  assumes "searchWikipedia_try E fetch query = Inr r"
  shows "r = \<lparr>ok = True, snippets = None, error = None, message = None\<rparr> \<or>
         (\<exists>data results entries.
            query_search data = Inr (Value (JArr results)) \<and>
            \<not> no_search_results E (Value (JArr results)) \<and>
            wiki_entries E 0 results = Inr entries \<and>
            r = \<lparr>ok = True, snippets = Some (join_blank entries), error = None, message = None\<rparr>)"
proof -
  from assms obtain q where q: "encodeURIComponent E query = Inr q"
    unfolding searchWikipedia_try_def by (auto simp: bindE_eq_Inr)
  with assms obtain status body where f: "fetch (wiki_url q) = Responds status body"
    unfolding searchWikipedia_try_def by (cases "fetch (wiki_url q)") auto
  with assms q have st: "response_ok status"
    unfolding searchWikipedia_try_def by (auto split: if_splits)
  with assms q f obtain data where body: "body = Inr data"
    unfolding searchWikipedia_try_def by (cases body) auto
  with assms q f st obtain s where s: "query_search data = Inr s"
    unfolding searchWikipedia_try_def by (auto simp: bindE_eq_Inr)
  from assms q f st body s have r:
    "(if no_search_results E s
      then Inr \<lparr>ok = True, snippets = None, error = None, message = None\<rparr>
      else (case s of
              Value (JArr results) \<Rightarrow>
                bindE (wiki_entries E 0 results) (\<lambda>entries.
                  Inr \<lparr>ok = True, snippets = Some (join_blank entries), error = None,
                       message = None\<rparr>)
            | _ \<Rightarrow> Inl (TypeError (str ''data.query.search.map is not a function'')))) = Inr r"
    unfolding searchWikipedia_try_def by simp
  show ?thesis
  proof (cases "no_search_results E s")
    case True
    with r show ?thesis by simp
  next
    case False
    with r obtain results where v: "s = Value (JArr results)"
      by (auto split: property.splits json.splits)
    with r False obtain entries where "wiki_entries E 0 results = Inr entries"
      "r = \<lparr>ok = True, snippets = Some (join_blank entries), error = None, message = None\<rparr>"
      by (auto simp: bindE_eq_Inr)
    with s v False show ?thesis by blast
  qed
qed

lemma searchWikipedia_try_ok: "searchWikipedia_try E fetch query = Inr r \<Longrightarrow> ok r"
  using searchWikipedia_try_cases [of E fetch query r] by auto

lemma webSearch_catch_shape:
  "webSearch_catch e =
     \<lparr>ok = False, snippets = None,
      error = Some (if err_name e = str ''AbortError'' then str ''Search timed out'' else err_message e),
      message = None\<rparr>"
  by (simp add: webSearch_catch_def)

text \<open>
  C4. \<open>webSearch\<close> and \<open>searchWikipedia\<close> never reject: whatever the query, the
  engine and the outcome of the request, each resolves to a result object, and a result
  that is not \<open>ok\<close> has \<open>snippets: null\<close> and an \<open>error\<close> message. In
  particular, when \<open>fetch\<close> rejects (a network failure, or the abort of the timer),
  when the status is not a success, and when the body is not JSON, the result is the
  failure object with the message of the source.
\<close>

theorem search_never_raises:
  "(\<exists>r. webSearch E fetch query maxResults = Inr r \<and>
        (\<not> ok r \<longrightarrow> snippets r = None \<and> (\<exists>msg. error r = Some msg))) \<and>
   (\<exists>r. searchWikipedia E fetch query = Inr r \<and>
        (\<not> ok r \<longrightarrow> snippets r = None \<and> (\<exists>msg. error r = Some msg))) \<and>
   (\<forall>q e. encodeURIComponent E query = Inr q \<and> fetch (search_url q) = Rejects e \<longrightarrow>
      webSearch E fetch query maxResults =
        Inr \<lparr>ok = False, snippets = None,
             error = Some (if err_name e = str ''AbortError'' then str ''Search timed out''
                           else err_message e),
             message = None\<rparr>) \<and>
   (\<forall>q status body. encodeURIComponent E query = Inr q \<and>
        fetch (search_url q) = Responds status body \<and> \<not> response_ok status \<longrightarrow>
      webSearch E fetch query maxResults =
        Inr \<lparr>ok = False, snippets = None,
             error = Some (str ''Search API returned '' @ show_nat status), message = None\<rparr>) \<and>
   (\<forall>q status e. encodeURIComponent E query = Inr q \<and>
        fetch (search_url q) = Responds status (Inl e) \<and> response_ok status \<longrightarrow>
      webSearch E fetch query maxResults =
        Inr \<lparr>ok = False, snippets = None,
             error = Some (if err_name e = str ''AbortError'' then str ''Search timed out''
                           else err_message e),
             message = None\<rparr>) \<and>
   (\<forall>q e. encodeURIComponent E query = Inr q \<and> fetch (wiki_url q) = Rejects e \<longrightarrow>
      searchWikipedia E fetch query =
        Inr \<lparr>ok = False, snippets = None, error = Some (err_message e), message = None\<rparr>) \<and>
   (\<forall>q status body. encodeURIComponent E query = Inr q \<and>
        fetch (wiki_url q) = Responds status body \<and> \<not> response_ok status \<longrightarrow>
      searchWikipedia E fetch query =
        Inr \<lparr>ok = False, snippets = None, error = Some (str ''Wikipedia API failed''),
             message = None\<rparr>) \<and>
   (\<forall>q status e. encodeURIComponent E query = Inr q \<and>
        fetch (wiki_url q) = Responds status (Inl e) \<and> response_ok status \<longrightarrow>
      searchWikipedia E fetch query =
        Inr \<lparr>ok = False, snippets = None, error = Some (err_message e), message = None\<rparr>)"
proof (intro conjI allI impI)
  show "\<exists>r. webSearch E fetch query maxResults = Inr r \<and>
        (\<not> ok r \<longrightarrow> snippets r = None \<and> (\<exists>msg. error r = Some msg))"
  proof (cases "webSearch_try E fetch query (given_or_3 maxResults)")
    case (Inl e)
    then show ?thesis by (simp add: webSearch_def webSearch_catch_shape)
  next
    case (Inr r)
    with webSearch_try_ok [OF Inr] show ?thesis by (simp add: webSearch_def)
  qed
next
  show "\<exists>r. searchWikipedia E fetch query = Inr r \<and>
        (\<not> ok r \<longrightarrow> snippets r = None \<and> (\<exists>msg. error r = Some msg))"
  proof (cases "searchWikipedia_try E fetch query")
    case (Inl e)
    then show ?thesis by (simp add: searchWikipedia_def)
  next
    case (Inr r)
    with searchWikipedia_try_ok [OF Inr] show ?thesis by (simp add: searchWikipedia_def)
  qed
next
  fix q e
  assume "encodeURIComponent E query = Inr q \<and> fetch (search_url q) = Rejects e"
  then show "webSearch E fetch query maxResults =
        Inr \<lparr>ok = False, snippets = None,
             error = Some (if err_name e = str ''AbortError'' then str ''Search timed out''
                           else err_message e),
             message = None\<rparr>"
    by (simp add: webSearch_def webSearch_try_def webSearch_catch_shape)
next
  fix q status and body :: "js_error + 'a json"
  assume "encodeURIComponent E query = Inr q \<and>
        fetch (search_url q) = Responds status body \<and> \<not> response_ok status"
  then show "webSearch E fetch query maxResults =
        Inr \<lparr>ok = False, snippets = None,
             error = Some (str ''Search API returned '' @ show_nat status), message = None\<rparr>"
    by (simp add: webSearch_def webSearch_try_def webSearch_catch_def Error_def str_def)
next
  fix q status e
  assume "encodeURIComponent E query = Inr q \<and>
        fetch (search_url q) = Responds status (Inl e) \<and> response_ok status"
  then show "webSearch E fetch query maxResults =
        Inr \<lparr>ok = False, snippets = None,
             error = Some (if err_name e = str ''AbortError'' then str ''Search timed out''
                           else err_message e),
             message = None\<rparr>"
    by (simp add: webSearch_def webSearch_try_def webSearch_catch_shape)
next
  fix q e
  assume "encodeURIComponent E query = Inr q \<and> fetch (wiki_url q) = Rejects e"
  then show "searchWikipedia E fetch query =
        Inr \<lparr>ok = False, snippets = None, error = Some (err_message e), message = None\<rparr>"
    by (simp add: searchWikipedia_def searchWikipedia_try_def)
next
  fix q status and body :: "js_error + 'a json"
  assume "encodeURIComponent E query = Inr q \<and>
        fetch (wiki_url q) = Responds status body \<and> \<not> response_ok status"
  then show "searchWikipedia E fetch query =
        Inr \<lparr>ok = False, snippets = None, error = Some (str ''Wikipedia API failed''),
             message = None\<rparr>"
    by (simp add: searchWikipedia_def searchWikipedia_try_def Error_def)
next
  fix q status e
  assume "encodeURIComponent E query = Inr q \<and>
        fetch (wiki_url q) = Responds status (Inl e) \<and> response_ok status"
  then show "searchWikipedia E fetch query =
        Inr \<lparr>ok = False, snippets = None, error = Some (err_message e), message = None\<rparr>"
    by (simp add: searchWikipedia_def searchWikipedia_try_def)
qed

text \<open>
  When the timer aborts the request, both functions return the failure object; the
  health check then reports \<open>ok: false\<close>.
\<close>

theorem search_never_raises_witness:
  "encodeURIComponent example_engine (str ''test'') = Inr (str ''test'') \<and>
   timeout_fetch (search_url (str ''test'')) =
     Rejects (JsError (str ''AbortError'') (str ''The operation was aborted.'')) \<and>
   timeout_fetch (wiki_url (str ''test'')) =
     Rejects (JsError (str ''AbortError'') (str ''The operation was aborted.'')) \<and>
   webSearch example_engine timeout_fetch (str ''test'') None =
     Inr \<lparr>ok = False, snippets = None, error = Some (str ''Search timed out''), message = None\<rparr> \<and>
   searchWikipedia example_engine timeout_fetch (str ''test'') =
     Inr \<lparr>ok = False, snippets = None, error = Some (str ''The operation was aborted.''),
          message = None\<rparr>"
proof -
  have enc: "encodeURIComponent example_engine (str ''test'') = Inr (str ''test'')"
    by (simp add: example_engine_def)
  have f: "timeout_fetch url =
     Rejects (JsError (str ''AbortError'') (str ''The operation was aborted.''))" for url
    by (simp add: timeout_fetch_def)
  from search_never_raises [of example_engine timeout_fetch "str ''test''" None]
  have "webSearch example_engine timeout_fetch (str ''test'') None =
     Inr \<lparr>ok = False, snippets = None, error = Some (str ''Search timed out''), message = None\<rparr>"
    and "searchWikipedia example_engine timeout_fetch (str ''test'') =
     Inr \<lparr>ok = False, snippets = None, error = Some (str ''The operation was aborted.''),
          message = None\<rparr>"
    using enc f by auto
  with enc f show ?thesis by simp
qed

text \<open>
  C10. \<open>checkSearchHealth\<close> resolves to an object whose only field is \<open>ok\<close>, equal to
  the \<open>ok\<close> of the result of \<open>webSearch('test', 1)\<close>. That call never rejects, so the
  \<open>catch\<close> branch of lines 98 to 100, which would add an \<open>error\<close> field, is never
  taken.
\<close>

theorem checkSearchHealth_only_ok:
  "(\<exists>r. webSearch E fetch (str ''test'') (Some 1) = Inr r \<and>
        checkSearchHealth E fetch = Inr \<lparr>h_ok = ok r, h_error = None\<rparr>) \<and>
   (\<forall>e. webSearch E fetch (str ''test'') (Some 1) \<noteq> Inl e)"
proof -
  have "\<exists>r. webSearch E fetch (str ''test'') (Some 1) = Inr r"
    by (cases "webSearch_try E fetch (str ''test'') (given_or_3 (Some 1))")
      (simp_all add: webSearch_def)
  then obtain r where r: "webSearch E fetch (str ''test'') (Some 1) = Inr r" ..
  then have "checkSearchHealth E fetch = Inr \<lparr>h_ok = ok r, h_error = None\<rparr>"
    by (simp add: checkSearchHealth_def)
  with r show ?thesis by simp
qed

text \<open>The probe of a provider that answers, and of one that times out.\<close>

theorem checkSearchHealth_only_ok_witness:
  "checkSearchHealth example_engine short_abstract_fetch = Inr \<lparr>h_ok = True, h_error = None\<rparr> \<and>
   checkSearchHealth example_engine timeout_fetch = Inr \<lparr>h_ok = False, h_error = None\<rparr>"
proof -
  have a: "webSearch example_engine short_abstract_fetch (str ''test'') (Some 1) =
      Inr \<lparr>ok = True, snippets = Some (str ''''), error = None, message = None\<rparr>"
    by (simp add: webSearch_def webSearch_try_def given_or_3_def example_engine_def
        short_abstract_fetch_def response_ok_def collect_snippets_def get_def truthy_def
        slice0_def formatted_entries_def long_enough_def str_def)
  have b: "webSearch example_engine timeout_fetch (str ''test'') (Some 1) =
      Inr \<lparr>ok = False, snippets = None, error = Some (str ''Search timed out''), message = None\<rparr>"
    by (simp add: webSearch_def webSearch_try_def given_or_3_def example_engine_def
        timeout_fetch_def webSearch_catch_def)
  from checkSearchHealth_only_ok [of example_engine short_abstract_fetch] a
    checkSearchHealth_only_ok [of example_engine timeout_fetch] b
  show ?thesis by auto
qed

lemma wiki_entry_shape:
  assumes "wiki_entry E idx result = Inr e"
  shows "\<exists>title u. e = str ''['' @ show_nat (idx + 1) @ str ''] '' @ title @ str '': '' @ strip_tags u"
proof -
  from assms obtain t title s where
    "get result (str ''snippet'') = Inr s"
    and e: "(case s of
         Some (JStr u) \<Rightarrow>
           Inr (str ''['' @ show_nat (idx + 1) @ str ''] '' @ title @ str '': '' @ strip_tags u)
       | None \<Rightarrow>
           Inl (TypeError (str ''Cannot read properties of undefined (reading '' @ [39]
                  @ str ''replace'' @ [39] @ str '')''))
       | Some JNull \<Rightarrow>
           Inl (TypeError (str ''Cannot read properties of null (reading '' @ [39]
                  @ str ''replace'' @ [39] @ str '')''))
       | Some _ \<Rightarrow> Inl (TypeError (str ''result.snippet.replace is not a function''))) = Inr e"
    unfolding wiki_entry_def bindE_eq_Inr by blast
  show ?thesis
  proof (cases s)
    case None
    with e show ?thesis by simp
  next
    case (Some v)
    with e show ?thesis by (cases v) auto
  qed
qed

lemma wiki_entry_nonempty: "wiki_entry E idx result = Inr e \<Longrightarrow> e \<noteq> []"
  using wiki_entry_shape [of E idx result e] by (auto simp: str_def)

lemma format_snippets_nth:
  "format_snippets E idx xs = Inr es \<Longrightarrow> i < length xs \<Longrightarrow> xs ! i = JStr u \<Longrightarrow>
     es ! i = str ''['' @ show_nat (idx + i + 1) @ str ''] '' @ u"
proof (induction xs arbitrary: idx es i)
  case Nil
  then show ?case by simp
next
  case (Cons x xs)
  from Cons.prems(1) obtain s rest where
    s: "to_string E x = Inr s" and rest: "format_snippets E (Suc idx) xs = Inr rest"
    and es: "es = (str ''['' @ show_nat (idx + 1) @ str ''] '' @ s) # rest"
    by (auto simp: bindE_eq_Inr)
  show ?case
  proof (cases i)
    case 0
    with Cons.prems(3) s es show ?thesis by (simp add: to_string_def)
  next
    case (Suc j)
    with Cons.prems have "j < length xs" "xs ! j = JStr u" by simp_all
    from Cons.IH [OF rest this] Suc es show ?thesis by simp
  qed
qed

lemma wiki_entries_length: "wiki_entries E idx rs = Inr es \<Longrightarrow> length es = length rs"
proof (induction rs arbitrary: idx es)
  case Nil
  then show ?case by simp
next
  case (Cons r rs)
  then show ?case by (auto simp: bindE_eq_Inr)
qed

lemma wiki_entries_join_nonempty:
  assumes "wiki_entries E idx rs = Inr es" and "rs \<noteq> []"
  shows "join_blank es \<noteq> []"
proof -
  from assms obtain r rs' where rs: "rs = r # rs'" by (cases rs) auto
  with assms(1) obtain e es' where e: "wiki_entry E idx r = Inr e" and es: "es = e # es'"
    by (auto simp: bindE_eq_Inr)
  from wiki_entry_nonempty [OF e] es show ?thesis by (cases es') auto
qed


text \<open>
  The claim C2 as stated fails: \<open>searchWikipedia\<close> has no length filter, so an entry
  of its non-null \<open>snippets\<close> can be as short as the provider's title and snippet
  make it. Here the only entry has 14 characters.
\<close>

theorem searchWikipedia_short_entry:
  "searchWikipedia example_engine short_wiki_fetch (str ''go'') =
     Inr \<lparr>ok = True, snippets = Some (str ''[1] Go: a game''), error = None, message = None\<rparr> \<and>
   wiki_entries example_engine 0
     [JObj [(str ''title'', JStr (str ''Go'')), (str ''snippet'', JStr (str ''a <b>game</b>''))]] =
     Inr [str ''[1] Go: a game''] \<and>
   length (str ''[1] Go: a game'') = 14"
  by (simp add: searchWikipedia_def searchWikipedia_try_def example_engine_def
      short_wiki_fetch_def response_ok_def query_search_def no_search_results_def
      get_def truthy_def wiki_entry_def to_string_def str_def show_nat_digit)

text \<open>
  C2, amended. A result of \<open>webSearch\<close> or \<open>searchWikipedia\<close> that is not \<open>ok\<close>
  has \<open>snippets: null\<close>. Non-null \<open>snippets\<close> of \<open>webSearch\<close> is the join of
  the entries formatted from the kept candidates, each of which passed the length test;
  for a text candidate that means more than 20 characters, in the candidate and in its
  entry. Non-null \<open>snippets\<close> of \<open>searchWikipedia\<close> is non-empty: the join of one
  entry per search result, of which there is at least one; no length is required of an
  entry.
\<close>

theorem snippet_result_shape:
  "(webSearch E fetch query maxResults = Inr r \<or> searchWikipedia E fetch query = Inr r \<longrightarrow>
      (\<not> ok r \<longrightarrow> snippets r = None)) \<and>
   (\<forall>t. webSearch E fetch query maxResults = Inr r \<and> snippets r = Some t \<longrightarrow>
      (\<exists>kept entries.
         format_snippets E 0 kept = Inr entries \<and>
         t = join_blank entries \<and>
         length entries = length kept \<and>
         (\<forall>i<length kept. long_enough E (kept ! i) = Inr True) \<and>
         (\<forall>i<length kept. \<forall>u. kept ! i = JStr u \<longrightarrow>
            20 < length u \<and>
            entries ! i = str ''['' @ show_nat (i + 1) @ str ''] '' @ u \<and>
            20 < length (entries ! i)))) \<and>
   (\<forall>t. searchWikipedia E fetch query = Inr r \<and> snippets r = Some t \<longrightarrow>
      t \<noteq> [] \<and>
      (\<exists>results entries.
         results \<noteq> [] \<and>
         wiki_entries E 0 results = Inr entries \<and>
         length entries = length results \<and>
         t = join_blank entries))"
proof (intro conjI)
  show "webSearch E fetch query maxResults = Inr r \<or> searchWikipedia E fetch query = Inr r \<longrightarrow>
      (\<not> ok r \<longrightarrow> snippets r = None)"
  proof (intro impI)
  assume nok: "\<not> ok r"
  assume "webSearch E fetch query maxResults = Inr r \<or> searchWikipedia E fetch query = Inr r"
  then have "ok r \<or> snippets r = None"
  proof
    assume w: "webSearch E fetch query maxResults = Inr r"
    show ?thesis
    proof (cases "webSearch_try E fetch query (given_or_3 maxResults)")
      case (Inl e)
      with w show ?thesis by (auto simp: webSearch_def webSearch_catch_shape)
    next
      case (Inr r')
      with w webSearch_try_ok [OF Inr] show ?thesis by (simp add: webSearch_def)
    qed
  next
    assume w: "searchWikipedia E fetch query = Inr r"
    show ?thesis
    proof (cases "searchWikipedia_try E fetch query")
      case (Inl e)
      with w show ?thesis by (auto simp: searchWikipedia_def)
    next
      case (Inr r')
      with w searchWikipedia_try_ok [OF Inr] show ?thesis by (simp add: searchWikipedia_def)
    qed
  qed
  with nok show "snippets r = None" by simp
  qed
next
  show "\<forall>t. webSearch E fetch query maxResults = Inr r \<and> snippets r = Some t \<longrightarrow>
      (\<exists>kept entries.
         format_snippets E 0 kept = Inr entries \<and>
         t = join_blank entries \<and>
         length entries = length kept \<and>
         (\<forall>i<length kept. long_enough E (kept ! i) = Inr True) \<and>
         (\<forall>i<length kept. \<forall>u. kept ! i = JStr u \<longrightarrow>
            20 < length u \<and>
            entries ! i = str ''['' @ show_nat (i + 1) @ str ''] '' @ u \<and>
            20 < length (entries ! i)))"
  proof (intro allI impI)
  fix t
  assume a: "webSearch E fetch query maxResults = Inr r \<and> snippets r = Some t"
  let ?P = "\<lambda>c. long_enough E c = Inr True"
  let ?n = "given_or_3 maxResults"
  from a webSearch_snippetsD [of E fetch query maxResults r t ?n]
  obtain cands entries where
    fe: "formatted_entries E cands ?n = Inr entries"
    and r: "r = \<lparr>ok = True, snippets = Some (join_blank entries), error = None, message = None\<rparr>"
    by auto
  from fe obtain ks where ks: "filter_snippets E cands = Inr ks"
    and fmt: "format_snippets E 0 (slice0 ks ?n) = Inr entries"
    by (auto simp: formatted_entries_def bindE_eq_Inr)
  define kept where "kept = slice0 ks ?n"
  from filter_snippets_Inr [OF ks] have sub: "set kept \<subseteq> set (filter ?P cands)"
    using set_slice0_subset [of ks ?n] by (simp add: kept_def)
  have pass: "long_enough E (kept ! i) = Inr True" if "i < length kept" for i
  proof -
    from that have "kept ! i \<in> set kept" by (rule nth_mem)
    with sub have "kept ! i \<in> set (filter ?P cands)" ..
    then show ?thesis by simp
  qed
  have fmt': "format_snippets E 0 kept = Inr entries"
    using fmt by (simp add: kept_def)
  have len: "length entries = length kept"
    using format_snippets_length [OF fmt'] .
  have t: "t = join_blank entries"
    using r a by simp
  have texts: "20 < length u \<and> entries ! i = str ''['' @ show_nat (i + 1) @ str ''] '' @ u \<and>
      20 < length (entries ! i)"
    if "i < length kept" "kept ! i = JStr u" for i u
  proof -
    from pass [OF that(1)] that(2) have l: "20 < length u"
      by (simp add: long_enough_JStr)
    from format_snippets_nth [OF fmt' that] have
      e: "entries ! i = str ''['' @ show_nat (i + 1) @ str ''] '' @ u" by simp
    from l e show ?thesis by simp
  qed
  from fmt' t len pass texts
  show "\<exists>kept entries.
         format_snippets E 0 kept = Inr entries \<and>
         t = join_blank entries \<and>
         length entries = length kept \<and>
         (\<forall>i<length kept. long_enough E (kept ! i) = Inr True) \<and>
         (\<forall>i<length kept. \<forall>u. kept ! i = JStr u \<longrightarrow>
            20 < length u \<and>
            entries ! i = str ''['' @ show_nat (i + 1) @ str ''] '' @ u \<and>
            20 < length (entries ! i))"
    by blast
  qed
next
  show "\<forall>t. searchWikipedia E fetch query = Inr r \<and> snippets r = Some t \<longrightarrow>
      t \<noteq> [] \<and>
      (\<exists>results entries.
         results \<noteq> [] \<and>
         wiki_entries E 0 results = Inr entries \<and>
         length entries = length results \<and>
         t = join_blank entries)"
  proof (intro allI impI)
  fix t
  assume a: "searchWikipedia E fetch query = Inr r \<and> snippets r = Some t"
  then have "searchWikipedia_try E fetch query = Inr r"
    by (cases "searchWikipedia_try E fetch query") (auto simp: searchWikipedia_def)
  from searchWikipedia_try_cases [OF this] a obtain data results entries where
    nr: "\<not> no_search_results E (Value (JArr results))"
    and we: "wiki_entries E 0 results = Inr entries"
    and r: "r = \<lparr>ok = True, snippets = Some (join_blank entries), error = None, message = None\<rparr>"
    by auto
  from nr have ne: "results \<noteq> []"
    by (simp add: no_search_results_def truthy_def)
  from r a have t: "t = join_blank entries" by simp
  from wiki_entries_join_nonempty [OF we ne] t have "t \<noteq> []" by simp
  moreover from ne we wiki_entries_length [OF we] t have
    "\<exists>results entries. results \<noteq> [] \<and> wiki_entries E 0 results = Inr entries \<and>
       length entries = length results \<and> t = join_blank entries"
    by blast
  ultimately show "t \<noteq> [] \<and>
      (\<exists>results entries.
         results \<noteq> [] \<and>
         wiki_entries E 0 results = Inr entries \<and>
         length entries = length results \<and>
         t = join_blank entries)" by simp
  qed
qed

text \<open>Both functions on answers with text: two kept candidates, and one search result.\<close>

theorem snippet_result_shape_witness:
  "webSearch example_engine mixed_fetch (str ''photosynthesis'') None =
     Inr \<lparr>ok = True,
          snippets = Some (str ''[1] Photosynthesis turns light into sugar\<newline>\<newline>[2] Chlorophyll absorbs blue and red light''),
          error = None, message = None\<rparr> \<and>
   (\<exists>kept entries.
      format_snippets example_engine 0 kept = Inr entries \<and>
      str ''[1] Photosynthesis turns light into sugar\<newline>\<newline>[2] Chlorophyll absorbs blue and red light'' = join_blank entries \<and>
      length entries = length kept \<and>
      (\<forall>i<length kept. long_enough example_engine (kept ! i) = Inr True) \<and>
      (\<forall>i<length kept. \<forall>u. kept ! i = JStr u \<longrightarrow>
         20 < length u \<and>
         entries ! i = str ''['' @ show_nat (i + 1) @ str ''] '' @ u \<and>
         20 < length (entries ! i))) \<and>
   searchWikipedia example_engine short_wiki_fetch (str ''go'') =
     Inr \<lparr>ok = True, snippets = Some (str ''[1] Go: a game''), error = None, message = None\<rparr> \<and>
   str ''[1] Go: a game'' \<noteq> [] \<and>
   (\<exists>results entries.
      results \<noteq> [] \<and>
      wiki_entries example_engine 0 results = Inr entries \<and>
      length entries = length results \<and>
      str ''[1] Go: a game'' = join_blank entries)"
proof -
  have web:
    "webSearch example_engine mixed_fetch (str ''photosynthesis'') None =
       Inr \<lparr>ok = True,
            snippets = Some (str ''[1] Photosynthesis turns light into sugar\<newline>\<newline>[2] Chlorophyll absorbs blue and red light''),
            error = None, message = None\<rparr>"
    by (simp add: webSearch_def webSearch_try_def given_or_3_def example_engine_def
        mixed_fetch_def response_ok_def collect_snippets_def get_def truthy_def slice0_def
        formatted_entries_def long_enough_def str_def to_string_def show_nat_digit)
  have wiki:
    "searchWikipedia example_engine short_wiki_fetch (str ''go'') =
       Inr \<lparr>ok = True, snippets = Some (str ''[1] Go: a game''), error = None,
            message = None\<rparr>"
    by (simp add: searchWikipedia_def searchWikipedia_try_def example_engine_def
        short_wiki_fetch_def response_ok_def query_search_def no_search_results_def
        get_def truthy_def wiki_entry_def to_string_def str_def show_nat_digit)
  from snippet_result_shape [of example_engine mixed_fetch "str ''photosynthesis''" None
      "\<lparr>ok = True,
        snippets = Some (str ''[1] Photosynthesis turns light into sugar\<newline>\<newline>[2] Chlorophyll absorbs blue and red light''),
        error = None, message = None\<rparr>"] web
  have a: "\<exists>kept entries.
      format_snippets example_engine 0 kept = Inr entries \<and>
      str ''[1] Photosynthesis turns light into sugar\<newline>\<newline>[2] Chlorophyll absorbs blue and red light'' = join_blank entries \<and>
      length entries = length kept \<and>
      (\<forall>i<length kept. long_enough example_engine (kept ! i) = Inr True) \<and>
      (\<forall>i<length kept. \<forall>u. kept ! i = JStr u \<longrightarrow>
         20 < length u \<and>
         entries ! i = str ''['' @ show_nat (i + 1) @ str ''] '' @ u \<and>
         20 < length (entries ! i))"
    by simp
  from snippet_result_shape [of example_engine short_wiki_fetch "str ''go''" None
      "\<lparr>ok = True, snippets = Some (str ''[1] Go: a game''), error = None, message = None\<rparr>"]
    wiki
  have b: "str ''[1] Go: a game'' \<noteq> [] \<and>
   (\<exists>results entries.
      results \<noteq> [] \<and>
      wiki_entries example_engine 0 results = Inr entries \<and>
      length entries = length results \<and>
      str ''[1] Go: a game'' = join_blank entries)"
    by simp
  from web a wiki b show ?thesis by blast
qed

section \<open>The identity verifier\<close>

lemma split_on_no_sep: "sep \<notin> set xs \<Longrightarrow> split_on sep xs = [xs]"
  by (induction xs) auto

lemma split_on_not_Nil: "split_on sep xs \<noteq> []"
  by (induction xs) (auto split: list.splits)

lemma split_on_append:
  "sep \<notin> set a \<Longrightarrow> split_on sep (a @ sep # b) = a # split_on sep b"
  by (induction a) auto

lemma split_on_empty_field:
  "b = [] \<or> (\<exists>b'. b = sep # b') \<Longrightarrow> \<exists>ps. split_on sep b = [] # ps"
  by auto

lemma header_token_eval: "header_token (Some (str ''Bearer abc'')) = Some (str ''abc'')"
  by (simp add: header_token_def str_def)

lemma split_on_first: "\<exists>ps. split_on sep xs = takeWhile (\<lambda>d. d \<noteq> sep) xs # ps"
proof (induction xs)
  case Nil
  then show ?case by simp
next
  case (Cons x xs)
  then show ?case by auto
qed

text \<open>
  A header with a non-empty second field has that field submitted to the identity
  provider, whatever stands before the first space.
\<close>

lemma credential_submitted:
  assumes "32 \<notin> set a" and "c \<noteq> 32"
  shows "getUser_calls (requireAuth False getUser (Some (a @ 32 # c # b))) =
           [takeWhile (\<lambda>d. d \<noteq> 32) (c # b)]"
proof -
  obtain ps where "split_on 32 (c # b) = takeWhile (\<lambda>d. d \<noteq> 32) (c # b) # ps"
    using split_on_first [of 32 "c # b"] ..
  with assms have "header_token (Some (a @ 32 # c # b)) = Some (c # takeWhile (\<lambda>d. d \<noteq> 32) b)"
    by (simp add: header_token_def split_on_append del: split_on.simps)
  with assms(2) show ?thesis
    by (simp add: requireAuth_def)
qed

text \<open>
  The claim C5 as stated fails: line 76 takes the second field of the header and line 77
  only tests that it is there, so a garbled credential with a non-empty second field is
  not answered \<open>No token provided\<close>; it is submitted to the identity provider. The
  header \<open>Basic xyz\<close> has \<open>xyz\<close> submitted, and a provider that accepts it lets the
  request through; the header \<open>%%% ??? !!!\<close> has \<open>???\<close> submitted, and the rejection
  is the generic one of line 93.
\<close>

theorem garbled_credential_reaches_provider:
  "requireAuth False accepting_getUser (Some (str ''Basic xyz'')) =
     \<lparr>reply = Next (Some (str ''ann@example.com'')), getUser_calls = [str ''xyz'']\<rparr> \<and>
   requireAuth False rejecting_getUser (Some (str ''%%% ??? !!!'')) =
     \<lparr>reply = Responded 401 [(str ''success'', BBool False),
                             (str ''error'', BString (str ''Authentication failed.''))],
      getUser_calls = [str ''???'']\<rparr>"
  by (simp add: requireAuth_def accepting_getUser_def rejecting_getUser_def race_5s_def
      resolved_email_def header_token_def str_def)

text \<open>
  C5, amended. In normal mode, a request whose \<open>authorization\<close> header is missing, has
  no space, or has its first space followed by nothing or by another space (the second
  field of \<open>split(' ')\<close> is absent or empty) is answered
  \<open>401 { error: 'No token provided' }\<close> and the identity provider is never called.
  Every other header, garbled or not, has its second field submitted to the identity
  provider.
\<close>

theorem missing_credential_rejected_unasked:
  "(authorization = None \<or>
    (\<exists>h. authorization = Some h \<and> 32 \<notin> set h) \<or>
    (\<exists>a b. authorization = Some (a @ 32 # b) \<and> 32 \<notin> set a \<and>
           (b = [] \<or> (\<exists>b'. b = 32 # b'))) \<longrightarrow>
      requireAuth False getUser authorization =
        \<lparr>reply = Responded 401 [(str ''error'', BString (str ''No token provided''))],
         getUser_calls = []\<rparr>) \<and>
   (\<forall>a c b. authorization = Some (a @ 32 # c # b) \<and> 32 \<notin> set a \<and> c \<noteq> 32 \<longrightarrow>
      getUser_calls (requireAuth False getUser authorization) =
        [takeWhile (\<lambda>d. d \<noteq> 32) (c # b)])"
proof (intro conjI allI impI)
  assume shape: "authorization = None \<or>
    (\<exists>h. authorization = Some h \<and> 32 \<notin> set h) \<or>
    (\<exists>a b. authorization = Some (a @ 32 # b) \<and> 32 \<notin> set a \<and>
           (b = [] \<or> (\<exists>b'. b = 32 # b')))"
  from shape have "header_token authorization = None \<or> header_token authorization = Some []"
  proof (elim disjE exE conjE)
    assume "authorization = None"
    then show ?thesis by (simp add: header_token_def)
  next
    fix h assume "authorization = Some h" "32 \<notin> set h"
    then show ?thesis by (simp add: header_token_def split_on_no_sep)
  next
    fix a b assume "authorization = Some (a @ 32 # b)" "32 \<notin> set a" "b = []"
    then show ?thesis by (simp add: header_token_def split_on_append)
  next
    fix a b b' assume "authorization = Some (a @ 32 # b)" "32 \<notin> set a" "b = 32 # b'"
    then show ?thesis by (simp add: header_token_def split_on_append)
  qed
  then show "requireAuth False getUser authorization =
        \<lparr>reply = Responded 401 [(str ''error'', BString (str ''No token provided''))],
         getUser_calls = []\<rparr>"
    by (auto simp: requireAuth_def)
next
  fix a c b
  assume "authorization = Some (a @ 32 # c # b) \<and> 32 \<notin> set a \<and> c \<noteq> 32"
  then show "getUser_calls (requireAuth False getUser authorization) =
        [takeWhile (\<lambda>d. d \<noteq> 32) (c # b)]"
    using credential_submitted [of a c getUser b] by simp
qed

text \<open>
  The headers \<open>Bearer\<close> and \<open>Bearer\<close> with a trailing space are answered without a
  call, before a provider that would accept any token; the header \<open>Bearer abc\<close> has
  \<open>abc\<close> submitted.
\<close>

theorem missing_credential_rejected_unasked_witness:
  "32 \<notin> set (str ''Bearer'') \<and>
   requireAuth False accepting_getUser (Some (str ''Bearer'')) =
     \<lparr>reply = Responded 401 [(str ''error'', BString (str ''No token provided''))],
      getUser_calls = []\<rparr> \<and>
   requireAuth False accepting_getUser (Some (str ''Bearer'' @ 32 # [])) =
     \<lparr>reply = Responded 401 [(str ''error'', BString (str ''No token provided''))],
      getUser_calls = []\<rparr> \<and>
   getUser_calls (requireAuth False accepting_getUser (Some (str ''Bearer'' @ 32 # 97 # str ''bc''))) =
     [str ''abc'']"
proof -
  have n: "32 \<notin> set (str ''Bearer'')"
    by (simp add: str_def)
  have tok: "takeWhile (\<lambda>d. d \<noteq> 32) (97 # str ''bc'') = str ''abc''"
    by (simp add: str_def)
  have far: "(97 :: 16 word) \<noteq> 32"
    by simp
  have h1: "\<exists>h. Some (str ''Bearer'') = Some h \<and> 32 \<notin> set h"
    using n by simp
  have h2: "\<exists>a b. Some (str ''Bearer'' @ 32 # []) = Some (a @ 32 # b) \<and> 32 \<notin> set a \<and>
      (b = [] \<or> (\<exists>b'. b = 32 # b'))"
  proof (intro exI conjI)
    show "Some (str ''Bearer'' @ 32 # []) = Some (str ''Bearer'' @ 32 # [])" ..
    show "32 \<notin> set (str ''Bearer'')" by (rule n)
    show "([] :: jsstring) = [] \<or> (\<exists>b'. ([] :: jsstring) = 32 # b')" by simp
  qed
  note first = missing_credential_rejected_unasked
    [of "Some (str ''Bearer'')" accepting_getUser, THEN conjunct1, THEN mp]
  note second = missing_credential_rejected_unasked
    [of "Some (str ''Bearer'' @ 32 # [])" accepting_getUser, THEN conjunct1, THEN mp]
  note third = missing_credential_rejected_unasked
    [of "Some (str ''Bearer'' @ 32 # 97 # str ''bc'')" accepting_getUser, THEN conjunct2,
     THEN spec, THEN spec, THEN spec, THEN mp, of "str ''Bearer''" 97 "str ''bc''"]
  have a: "requireAuth False accepting_getUser (Some (str ''Bearer'')) =
     \<lparr>reply = Responded 401 [(str ''error'', BString (str ''No token provided''))],
      getUser_calls = []\<rparr>"
    by (rule first) (intro disjI2 disjI1, rule h1)
  have b: "requireAuth False accepting_getUser (Some (str ''Bearer'' @ 32 # [])) =
     \<lparr>reply = Responded 401 [(str ''error'', BString (str ''No token provided''))],
      getUser_calls = []\<rparr>"
    by (rule second) (intro disjI2, rule h2)
  have c:
    "getUser_calls (requireAuth False accepting_getUser (Some (str ''Bearer'' @ 32 # 97 # str ''bc''))) =
       [takeWhile (\<lambda>d. d \<noteq> 32) (97 # str ''bc'')]"
    by (rule third) (intro conjI refl n far)
  from c tok have c':
    "getUser_calls (requireAuth False accepting_getUser (Some (str ''Bearer'' @ 32 # 97 # str ''bc''))) =
       [str ''abc'']"
    by (simp only:)
  from n a b c' show ?thesis by (intro conjI)
qed

text \<open>
  C8. In normal mode, when the lookup of the token does not settle before the 5 second
  timer fires (it settles later, with whatever outcome, or never), the race rejects,
  and the request is answered \<open>401 { success: false, error: 'Authentication failed.' }\<close>.
\<close>

theorem lookup_deadline_fails:
  assumes "header_token authorization = Some token" and "token \<noteq> []"
    and "getUser token = Settles_late outcome \<or> getUser token = Never_settles"
  shows "requireAuth False getUser authorization =
           \<lparr>reply = Responded 401 [(str ''success'', BBool False),
                                   (str ''error'', BString (str ''Authentication failed.''))],
            getUser_calls = [token]\<rparr>"
proof -
  from assms(3) have "race_5s (getUser token) = Inl (Error (str ''Supabase Timeout''))"
    by (auto simp: race_5s_def)
  then have "resolved_email (race_5s (getUser token)) = Inl (Error (str ''Supabase Timeout''))"
    by (simp add: resolved_email_def)
  with assms(1,2) show ?thesis
    by (cases token) (simp_all add: requireAuth_def)
qed

text \<open>A provider that would have returned the user, too late.\<close>

theorem lookup_deadline_fails_witness:
  "header_token (Some (str ''Bearer abc'')) = Some (str ''abc'') \<and>
   str ''abc'' \<noteq> [] \<and>
   late_getUser (str ''abc'') =
     Settles_late (Inr (GetUserResult (Some (User (Some (str ''ann@example.com'')))) None)) \<and>
   requireAuth False late_getUser (Some (str ''Bearer abc'')) =
     \<lparr>reply = Responded 401 [(str ''success'', BBool False),
                             (str ''error'', BString (str ''Authentication failed.''))],
      getUser_calls = [str ''abc'']\<rparr>"
proof -
  have ne: "str ''abc'' \<noteq> []" by (simp add: str_def)
  have l: "late_getUser (str ''abc'') =
     Settles_late (Inr (GetUserResult (Some (User (Some (str ''ann@example.com'')))) None))"
    by (simp add: late_getUser_def)
  from lookup_deadline_fails [OF header_token_eval ne, of late_getUser] l header_token_eval ne
  show ?thesis by simp
qed

text \<open>
  C9. When \<open>BYPASS_AUTH\<close> is on (the environment variable is the string \<open>true\<close>),
  every request, with or without a header, is handed on with the fixed identity
  \<open>test@dev.com\<close>, and the identity provider is not called.
\<close>

theorem bypass_returns_sentinel:
  assumes "BYPASS_AUTH env"
  shows "requireAuth (BYPASS_AUTH env) getUser authorization =
           \<lparr>reply = Next (Some (str ''test@dev.com'')), getUser_calls = []\<rparr>"
  using assms by (simp add: requireAuth_def)

text \<open>A request without a header, before a provider that rejects every token.\<close>

theorem bypass_returns_sentinel_witness:
  "BYPASS_AUTH (Some (str ''true'')) \<and>
   requireAuth (BYPASS_AUTH (Some (str ''true''))) rejecting_getUser None =
     \<lparr>reply = Next (Some (str ''test@dev.com'')), getUser_calls = []\<rparr>"
proof -
  have b: "BYPASS_AUTH (Some (str ''true''))" by (simp add: BYPASS_AUTH_def)
  from b bypass_returns_sentinel [OF b, of rejecting_getUser None] show ?thesis by simp
qed

text \<open>
  The claim C3 as stated fails: the two failure kinds are answered with different
  bodies. A request without a header gets \<open>{ error: 'No token provided' }\<close>, one with
  a rejected token gets \<open>{ success: false, error: 'Authentication failed.' }\<close>.
\<close>

theorem auth_failure_replies_differ:
  "reply (requireAuth False rejecting_getUser None) =
     Responded 401 [(str ''error'', BString (str ''No token provided''))] \<and>
   reply (requireAuth False rejecting_getUser (Some (str ''Bearer abc''))) =
     Responded 401 [(str ''success'', BBool False),
                    (str ''error'', BString (str ''Authentication failed.''))] \<and>
   reply (requireAuth False rejecting_getUser None) \<noteq>
     reply (requireAuth False rejecting_getUser (Some (str ''Bearer abc'')))"
  by (simp add: requireAuth_def rejecting_getUser_def race_5s_def resolved_email_def
      header_token_def str_def)

text \<open>
  C3, amended. Both failure kinds are answered with status 401 and the request is not
  handed on. Every cause of a failed authentication (the lookup rejects, returns an
  error or no user, or loses the race against the timer) gives the one body
  \<open>{ success: false, error: 'Authentication failed.' }\<close>; a missing credential gives
  the body \<open>{ error: 'No token provided' }\<close>.
\<close>

theorem auth_failure_replies:
  "(header_token authorization = None \<or> header_token authorization = Some [] \<longrightarrow>
      reply (requireAuth False getUser authorization) =
        Responded 401 [(str ''error'', BString (str ''No token provided''))]) \<and>
   (\<forall>token. header_token authorization = Some token \<and> token \<noteq> [] \<and>
        (\<forall>u. getUser token \<noteq> Settles_in_time (Inr (GetUserResult (Some u) None))) \<longrightarrow>
      reply (requireAuth False getUser authorization) =
        Responded 401 [(str ''success'', BBool False),
                       (str ''error'', BString (str ''Authentication failed.''))])"
proof (intro conjI allI impI)
  assume "header_token authorization = None \<or> header_token authorization = Some []"
  then show "reply (requireAuth False getUser authorization) =
        Responded 401 [(str ''error'', BString (str ''No token provided''))]"
    by (auto simp: requireAuth_def)
next
  fix token
  assume a: "header_token authorization = Some token \<and> token \<noteq> [] \<and>
        (\<forall>u. getUser token \<noteq> Settles_in_time (Inr (GetUserResult (Some u) None)))"
  have "\<exists>e. resolved_email (race_5s (getUser token)) = Inl e"
  proof (cases "getUser token")
    case (Settles_in_time r)
    show ?thesis
    proof (cases r)
      case (Inl e)
      with Settles_in_time show ?thesis by (simp add: race_5s_def resolved_email_def)
    next
      case (Inr res)
      obtain u e where res: "res = GetUserResult u e" by (cases res)
      with a Settles_in_time Inr have "e \<noteq> None \<or> u = None" by (cases u; cases e) auto
      with Settles_in_time Inr res show ?thesis
        by (auto simp: race_5s_def resolved_email_def split: option.splits)
    qed
  next
    case (Settles_late r)
    then show ?thesis by (simp add: race_5s_def resolved_email_def)
  next
    case Never_settles
    then show ?thesis by (simp add: race_5s_def resolved_email_def)
  qed
  then obtain e where "resolved_email (race_5s (getUser token)) = Inl e" ..
  with a show "reply (requireAuth False getUser authorization) =
        Responded 401 [(str ''success'', BBool False),
                       (str ''error'', BString (str ''Authentication failed.''))]"
    by (cases token) (simp_all add: requireAuth_def)
qed

text \<open>A request without a header, and one whose lookup settles too late.\<close>

theorem auth_failure_replies_witness:
  "header_token None = None \<and>
   reply (requireAuth False late_getUser None) =
     Responded 401 [(str ''error'', BString (str ''No token provided''))] \<and>
   header_token (Some (str ''Bearer abc'')) = Some (str ''abc'') \<and>
   reply (requireAuth False late_getUser (Some (str ''Bearer abc''))) =
     Responded 401 [(str ''success'', BBool False),
                    (str ''error'', BString (str ''Authentication failed.''))]"
proof -
  have n: "header_token None = None" by (simp add: header_token_def)
  have ne: "str ''abc'' \<noteq> []" by (simp add: str_def)
  have l: "late_getUser (str ''abc'') \<noteq> Settles_in_time (Inr (GetUserResult (Some u) None))" for u
    by (simp add: late_getUser_def)
  from auth_failure_replies [of None late_getUser] n
  have a: "reply (requireAuth False late_getUser None) =
     Responded 401 [(str ''error'', BString (str ''No token provided''))]" by simp
  from auth_failure_replies [of "Some (str ''Bearer abc'')" late_getUser] header_token_eval ne l
  have b: "reply (requireAuth False late_getUser (Some (str ''Bearer abc''))) =
     Responded 401 [(str ''success'', BBool False),
                    (str ''error'', BString (str ''Authentication failed.''))]" by simp
  from n a header_token_eval b show ?thesis by simp
qed


end
